theory Spec2Isabelle
  imports Main
begin

section \<open>The OpenAPI v2 document tree read by the builder\<close>

text \<open>
  The builder of \<^verbatim>\<open>surface/model_openapiv2.go\<close> walks a tree of generated message
  structs. Each struct is modelled with exactly the fields the builder reads. A Go pointer
  that the builder tests against \<^verbatim>\<open>nil\<close>, dereferences without a test, or hands
  to a nil-safe getter is an \<open>option\<close>; a \<^verbatim>\<open>oneof\<close> is a datatype with one
  constructor per alternative and one for the alternative left unset. Elements of repeated
  fields and the \<^verbatim>\<open>Value\<close> of a named schema or of a named path item are taken
  to be non-nil.
\<close>

datatype TypeItem = TypeItem (Value: "string list")

datatype Schema = Schema
    (XRef: string)
    (Format: string)
    (Type: "TypeItem option")
    (Items: "ItemsItem option")
    (Properties: "Properties option")
    (AdditionalProperties: "AdditionalPropertiesItem option")
  and ItemsItem = ItemsItem (ItemsItem_Schema: "Schema list")
  and Properties = Properties_of (Properties_AdditionalProperties: "NamedSchema list")
  and NamedSchema = NamedSchema (NamedSchema_Name: string) (NamedSchema_Value: Schema)
  and AdditionalPropertiesItem =
      AdditionalPropertiesItem_Schema Schema
    | AdditionalPropertiesItem_Boolean bool
    | AdditionalPropertiesItem_unset

text \<open>The generated getter of the \<^verbatim>\<open>oneof\<close>: the schema alternative, or nil.\<close>

fun AdditionalPropertiesItem_GetSchema :: "AdditionalPropertiesItem \<Rightarrow> Schema option" where
  "AdditionalPropertiesItem_GetSchema (AdditionalPropertiesItem_Schema s) = Some s"
| "AdditionalPropertiesItem_GetSchema (AdditionalPropertiesItem_Boolean b) = None"
| "AdditionalPropertiesItem_GetSchema AdditionalPropertiesItem_unset = None"

datatype BodyParameter = BodyParameter
    (BodyParameter_Name: string)
    (BodyParameter_Schema: "Schema option")

text \<open>
  The header, form-data, query and path sub-schemas are four structs with the same three
  fields read here; one type stands for all four.
\<close>

datatype ParameterSubSchema = ParameterSubSchema
    (SubSchema_Name: string)
    (SubSchema_Type: string)
    (SubSchema_Format: string)

datatype NonBodyParameter =
    NonBodyParameter_HeaderParameterSubSchema ParameterSubSchema
  | NonBodyParameter_FormDataParameterSubSchema ParameterSubSchema
  | NonBodyParameter_QueryParameterSubSchema ParameterSubSchema
  | NonBodyParameter_PathParameterSubSchema ParameterSubSchema
  | NonBodyParameter_unset

datatype Parameter =
    Parameter_BodyParameter BodyParameter
  | Parameter_NonBodyParameter NonBodyParameter
  | Parameter_unset

datatype ParametersItem =
    ParametersItem_Parameter Parameter
  | ParametersItem_JsonReference string
  | ParametersItem_unset

fun GetParameter :: "ParametersItem \<Rightarrow> Parameter option" where
  "GetParameter (ParametersItem_Parameter p) = Some p"
| "GetParameter (ParametersItem_JsonReference r) = None"
| "GetParameter ParametersItem_unset = None"

fun GetBodyParameter :: "Parameter \<Rightarrow> BodyParameter option" where
  "GetBodyParameter (Parameter_BodyParameter b) = Some b"
| "GetBodyParameter (Parameter_NonBodyParameter n) = None"
| "GetBodyParameter Parameter_unset = None"

fun GetNonBodyParameter :: "Parameter \<Rightarrow> NonBodyParameter option" where
  "GetNonBodyParameter (Parameter_NonBodyParameter n) = Some n"
| "GetNonBodyParameter (Parameter_BodyParameter b) = None"
| "GetNonBodyParameter Parameter_unset = None"

fun GetHeaderParameterSubSchema :: "NonBodyParameter \<Rightarrow> ParameterSubSchema option" where
  "GetHeaderParameterSubSchema (NonBodyParameter_HeaderParameterSubSchema x) = Some x"
| "GetHeaderParameterSubSchema _ = None"

fun GetFormDataParameterSubSchema :: "NonBodyParameter \<Rightarrow> ParameterSubSchema option" where
  "GetFormDataParameterSubSchema (NonBodyParameter_FormDataParameterSubSchema x) = Some x"
| "GetFormDataParameterSubSchema _ = None"

fun GetQueryParameterSubSchema :: "NonBodyParameter \<Rightarrow> ParameterSubSchema option" where
  "GetQueryParameterSubSchema (NonBodyParameter_QueryParameterSubSchema x) = Some x"
| "GetQueryParameterSubSchema _ = None"

fun GetPathParameterSubSchema :: "NonBodyParameter \<Rightarrow> ParameterSubSchema option" where
  "GetPathParameterSubSchema (NonBodyParameter_PathParameterSubSchema x) = Some x"
| "GetPathParameterSubSchema _ = None"

datatype SchemaItem =
    SchemaItem_Schema Schema
  | SchemaItem_FileSchema
  | SchemaItem_unset

fun SchemaItem_GetSchema :: "SchemaItem \<Rightarrow> Schema option" where
  "SchemaItem_GetSchema (SchemaItem_Schema s) = Some s"
| "SchemaItem_GetSchema SchemaItem_FileSchema = None"
| "SchemaItem_GetSchema SchemaItem_unset = None"

datatype Response = Response (Response_Schema: "SchemaItem option")

datatype ResponseValue =
    ResponseValue_Response Response
  | ResponseValue_JsonReference string
  | ResponseValue_unset

text \<open>The getter is called on a pointer that may be nil, and then answers nil.\<close>

fun GetResponse :: "ResponseValue option \<Rightarrow> Response option" where
  "GetResponse None = None"
| "GetResponse (Some (ResponseValue_Response r)) = Some r"
| "GetResponse (Some (ResponseValue_JsonReference j)) = None"
| "GetResponse (Some ResponseValue_unset) = None"

datatype NamedResponseValue = NamedResponseValue
    (NamedResponseValue_Name: string)
    (NamedResponseValue_Value: "ResponseValue option")

datatype Responses = Responses (ResponseCode: "NamedResponseValue list")

datatype Operation = Operation
    (OperationId: string)
    (Operation_Description: string)
    (Parameters: "ParametersItem list")
    (Operation_Responses: "Responses option")

datatype PathItem = PathItem
    (Get: "Operation option")
    (Put: "Operation option")
    (Post: "Operation option")
    (Delete: "Operation option")
    (Options: "Operation option")
    (Head: "Operation option")
    (Patch: "Operation option")

datatype NamedPathItem = NamedPathItem
    (NamedPathItem_Name: string)
    (NamedPathItem_Value: PathItem)

datatype Paths = Paths (Path: "NamedPathItem list")

datatype Definitions = Definitions (Definitions_AdditionalProperties: "NamedSchema list")

datatype Info = Info (Title: string)

datatype Document = Document
    (Document_Info: "Info option")
    (Document_Definitions: "Definitions option")
    (Document_Paths: "Paths option")

section \<open>The surface model that the builder produces\<close>

text \<open>
  The declarations of \<^verbatim>\<open>Model\<close>, \<^verbatim>\<open>Type\<close>, \<^verbatim>\<open>Field\<close>, \<^verbatim>\<open>Method\<close> and
  of the two enumerations are generated code in another file of the package. They are
  taken from the data model of the spec, with the field names that the builder assigns.
\<close>

text \<open>Modelled from the spec: the enumeration \<^verbatim>\<open>Kind\<close>, missing from the sources, with
  the two kinds that the builder assigns. The spec speaks of a kind left unset: a type
  holds a \<open>Kind option\<close>, and \<open>None\<close> is the kind that was never assigned.\<close>

datatype Kind = Kind_STRUCT | Kind_MAP

text \<open>Modelled from the spec: the enumeration \<^verbatim>\<open>Position\<close>, missing from the sources;
  the spec lists body, header, query, path, form data and unset, the last being \<open>None\<close>
  in a field.\<close>

datatype Position =
    Position_BODY | Position_HEADER | Position_FORMDATA | Position_QUERY | Position_PATH

text \<open>Modelled from the spec: the struct \<^verbatim>\<open>Field\<close>, missing from the sources, with the
  attributes name, type, value type, format, position and serialize.\<close>

record Field =
  Field_Name :: string
  Field_Type :: string
  Field_ValueType :: string
  Field_Format :: string
  Field_Position :: "Position option"
  Field_Serialize :: bool

text \<open>Modelled from the spec: the struct \<^verbatim>\<open>Type\<close>, missing from the sources, with the
  attributes name, description, kind, fields and map value type.\<close>

record Type =
  Type_Name :: string
  Type_Description :: string
  Type_Kind :: "Kind option"
  Type_Fields :: "Field list"
  Type_MapType :: string

text \<open>Modelled from the spec: the struct \<^verbatim>\<open>Method\<close>, missing from the sources, with
  the attributes operation, path, HTTP method, description, name and the names of the
  parameters type and of the responses type.\<close>

record Method =
  Method_Operation :: string
  Method_Path :: string
  Method_Method :: string
  Method_Description :: string
  Method_Name :: string
  Method_ParametersTypeName :: string
  Method_ResponsesTypeName :: string

text \<open>Modelled from the spec: the struct \<^verbatim>\<open>Model\<close>, missing from the sources, with the
  attributes name, types and methods, both lists in order of insertion.\<close>

record Model =
  Model_Name :: string
  Model_Types :: "Type list"
  Model_Methods :: "Method list"

text \<open>The zero values that \<^verbatim>\<open>var f Field\<close>, \<^verbatim>\<open>&Type{}\<close>, \<^verbatim>\<open>var m Method\<close>
  and \<^verbatim>\<open>&Model{}\<close> start from.\<close>

definition Field_zero :: Field where
  "Field_zero = \<lparr>Field_Name = '''', Field_Type = '''', Field_ValueType = '''',
     Field_Format = '''', Field_Position = None, Field_Serialize = False\<rparr>"

definition Type_zero :: Type where
  "Type_zero = \<lparr>Type_Name = '''', Type_Description = '''', Type_Kind = None,
     Type_Fields = [], Type_MapType = ''''\<rparr>"

definition Method_zero :: Method where
  "Method_zero = \<lparr>Method_Operation = '''', Method_Path = '''', Method_Method = '''',
     Method_Description = '''', Method_Name = '''', Method_ParametersTypeName = '''',
     Method_ResponsesTypeName = ''''\<rparr>"

definition Model_zero :: Model where
  "Model_zero = \<lparr>Model_Name = '''', Model_Types = [], Model_Methods = []\<rparr>"

text \<open>Modelled from the spec: \<^verbatim>\<open>addField\<close>, missing from the sources. The spec
  describes the fields of a type as an ordered list that grows by appends during the
  construction of the type.\<close>

definition addField :: "Type \<Rightarrow> Field \<Rightarrow> Type" where
  "addField t f = t\<lparr>Type_Fields := Type_Fields t @ [f]\<rparr>"

text \<open>Modelled from the spec: \<^verbatim>\<open>addType\<close>, missing from the sources. The spec has each
  type appended to the types of the model, which are ordered by insertion.\<close>

definition addType :: "Model \<Rightarrow> Type \<Rightarrow> Model" where
  "addType model t = model\<lparr>Model_Types := Model_Types model @ [t]\<rparr>"

text \<open>Modelled from the spec: \<^verbatim>\<open>addMethod\<close>, missing from the sources. The spec has
  each method appended to the methods of the model, which are ordered by insertion.\<close>

definition addMethod :: "Model \<Rightarrow> Method \<Rightarrow> Model" where
  "addMethod model m = model\<lparr>Model_Methods := Model_Methods model @ [m]\<rparr>"

section \<open>Helpers of the package that the builder calls\<close>

text \<open>
  \<^verbatim>\<open>typeForRef\<close>, \<^verbatim>\<open>sanitizeOperationName\<close> and
  \<^verbatim>\<open>generateOperationName\<close> are defined in another file of the package, and the two
  \<^verbatim>\<open>fmt.Sprintf\<close> renderings (\<^verbatim>\<open>%v\<close> of a schema, \<^verbatim>\<open>%+v\<close> of a parameters
  item) belong to the Go library and to the messages' own \<^verbatim>\<open>String\<close> methods. They
  are parameters of the model, so every theorem holds for whatever functions they are.
\<close>

record helpers =
  typeForRef :: "string \<Rightarrow> string"
  sanitizeOperationName :: "string \<Rightarrow> string"
  generateOperationName :: "string \<Rightarrow> string \<Rightarrow> string"
  Sprintf_v :: "Schema \<Rightarrow> string"
  Sprintf_plus_v :: "ParametersItem \<Rightarrow> string"

text \<open>
  A Go \<^verbatim>\<open>error\<close> result is an \<open>error option\<close> (\<open>None\<close> is nil). A run-time panic is
  the left summand of the result; the only panic this file can raise is the dereference of
  a nil pointer.
\<close>

datatype error = Error string

datatype panic = NilPointerDereference

section \<open>Type inference\<close>

text \<open>
  The body of \<^verbatim>\<open>if schema.Type != nil { ... }\<close>: \<open>Some\<close> is a \<^verbatim>\<open>return\<close>, \<open>None\<close>
  is falling out of the block. The array test returns only when the single item carries a
  reference, and otherwise goes on to the object test.
\<close>

definition typeForDeclaredType :: "helpers \<Rightarrow> Schema \<Rightarrow> string option" where
  "typeForDeclaredType E schema =
    (case Type schema of
       None \<Rightarrow> None
     | Some ty \<Rightarrow>
         (let types = Value ty; format = Format schema in
          if length types = 1 \<and> types ! 0 = ''string'' then Some ''string''
          else if length types = 1 \<and> types ! 0 = ''integer'' \<and> format = ''int32''
          then Some ''int32''
          else if length types = 1 \<and> types ! 0 = ''integer'' then Some ''int''
          else if length types = 1 \<and> types ! 0 = ''number'' then Some ''int''
          else
            (case (if length types = 1 \<and> types ! 0 = ''array'' then Items schema else None) of
               Some its \<Rightarrow>
                 (let items = ItemsItem_Schema its in
                  if length items = 1 \<and> XRef (items ! 0) \<noteq> ''''
                  then Some (''[]'' @ typeForRef E (XRef (items ! 0)))
                  else if length types = 1 \<and> types ! 0 = ''object''
                          \<and> AdditionalProperties schema = None
                  then Some ''map[string]interface{}''
                  else None)
             | None \<Rightarrow>
                 if length types = 1 \<and> types ! 0 = ''object''
                    \<and> AdditionalProperties schema = None
                 then Some ''map[string]interface{}''
                 else None)))"

text \<open>The body of \<^verbatim>\<open>if schema.AdditionalProperties != nil { ... }\<close>, read the same way.\<close>

definition typeForAdditionalProperties :: "helpers \<Rightarrow> Schema \<Rightarrow> string option" where
  "typeForAdditionalProperties E schema =
    (case AdditionalProperties schema of
       None \<Rightarrow> None
     | Some additionalProperties \<Rightarrow>
         (case AdditionalPropertiesItem_GetSchema additionalProperties of
            None \<Rightarrow> None
          | Some propertySchema \<Rightarrow>
              (let ref = XRef propertySchema in
               if ref \<noteq> '''' then Some (''map[string]'' @ typeForRef E ref) else None)))"

definition typeForSchema :: "helpers \<Rightarrow> Schema \<Rightarrow> string" where
  "typeForSchema E schema =
    (let ref = XRef schema in
     if ref \<noteq> '''' then typeForRef E ref
     else
       (case typeForDeclaredType E schema of
          Some typeName \<Rightarrow> typeName
        | None \<Rightarrow>
            (case typeForAdditionalProperties E schema of
               Some typeName \<Rightarrow> typeName
             | None \<Rightarrow> Sprintf_v E schema)))"

section \<open>Definitions\<close>

text \<open>The loop over the declared properties, appending one field for each.\<close>

fun propertyFields :: "helpers \<Rightarrow> NamedSchema list \<Rightarrow> Type \<Rightarrow> Type" where
  "propertyFields E [] t = t"
| "propertyFields E (pair2 # rest) t =
     propertyFields E rest
       (addField t (Field_zero\<lparr>Field_Name := NamedSchema_Name pair2,
                                Field_Type := typeForSchema E (NamedSchema_Value pair2),
                                Field_Serialize := True\<rparr>))"

text \<open>
  \<^verbatim>\<open>schema.AdditionalProperties.GetSchema().XRef\<close> reads a field of whatever the getter
  returns; when that is nil the read panics.
\<close>

definition buildTypeFromDefinition ::
    "helpers \<Rightarrow> string \<Rightarrow> Schema \<Rightarrow> panic + (Type \<times> error option)" where
  "buildTypeFromDefinition E name schema =
    (let t = Type_zero\<lparr>Type_Name := name,
                       Type_Description := ''implements the service definition of '' @ name,
                       Type_Fields := []\<rparr>;
         t = (case Properties schema of
                None \<Rightarrow> t
              | Some props \<Rightarrow>
                  propertyFields E (Properties_AdditionalProperties props)
                    (if length (Properties_AdditionalProperties props) > 0
                     then t\<lparr>Type_Kind := Some Kind_STRUCT\<rparr> else t))
     in
     if length (Type_Fields t) = 0 then
       (case AdditionalProperties schema of
          None \<Rightarrow> Inr (t, None)
        | Some additionalProperties \<Rightarrow>
            (case AdditionalPropertiesItem_GetSchema additionalProperties of
               None \<Rightarrow> Inl NilPointerDereference
             | Some s \<Rightarrow>
                 (let mapType = typeForRef E (XRef s) in
                  Inr (t\<lparr>Type_Kind := Some Kind_MAP, Type_MapType := mapType\<rparr>, None))))
     else Inr (t, None))"

section \<open>Parameters\<close>

text \<open>The four tests on a non-body parameter, in the order of the source.\<close>

definition nonBodyParameterField :: "NonBodyParameter \<Rightarrow> Field \<Rightarrow> Field" where
  "nonBodyParameterField nonBodyParameter f0 =
    (let f = (case GetHeaderParameterSubSchema nonBodyParameter of
                None \<Rightarrow> f0
              | Some headerParameter \<Rightarrow>
                  f0\<lparr>Field_Name := SubSchema_Name headerParameter,
                     Field_Type := SubSchema_Type headerParameter,
                     Field_Position := Some Position_HEADER\<rparr>);
         f = (case GetFormDataParameterSubSchema nonBodyParameter of
                None \<Rightarrow> f
              | Some formDataParameter \<Rightarrow>
                  f\<lparr>Field_Name := SubSchema_Name formDataParameter,
                    Field_Type := SubSchema_Type formDataParameter,
                    Field_Position := Some Position_FORMDATA\<rparr>);
         f = (case GetQueryParameterSubSchema nonBodyParameter of
                None \<Rightarrow> f
              | Some queryParameter \<Rightarrow>
                  f\<lparr>Field_Name := SubSchema_Name queryParameter,
                    Field_Type := SubSchema_Type queryParameter,
                    Field_Position := Some Position_QUERY\<rparr>)
     in
     case GetPathParameterSubSchema nonBodyParameter of
       None \<Rightarrow> f
     | Some pathParameter \<Rightarrow>
         f\<lparr>Field_Name := SubSchema_Name pathParameter,
           Field_Type := SubSchema_Type pathParameter,
           Field_Format := SubSchema_Format pathParameter,
           Field_Position := Some Position_PATH\<rparr>)"

text \<open>The field built for an entry whose \<^verbatim>\<open>GetParameter()\<close> is not nil.\<close>

definition parameterField :: "helpers \<Rightarrow> ParametersItem \<Rightarrow> Parameter \<Rightarrow> Field" where
  "parameterField E parametersItem parameter =
    (let f = Field_zero\<lparr>Field_Type := Sprintf_plus_v E parametersItem\<rparr>;
         f = (case GetBodyParameter parameter of
                None \<Rightarrow> f
              | Some bodyParameter \<Rightarrow>
                  (let f = f\<lparr>Field_Name := BodyParameter_Name bodyParameter\<rparr>;
                       f = (case BodyParameter_Schema bodyParameter of
                              None \<Rightarrow> f
                            | Some s \<Rightarrow> f\<lparr>Field_Type := typeForSchema E s\<rparr>)
                   in f\<lparr>Field_Position := Some Position_BODY\<rparr>));
         f = (case GetNonBodyParameter parameter of
                None \<Rightarrow> f
              | Some nonBodyParameter \<Rightarrow> nonBodyParameterField nonBodyParameter f)
     in f\<lparr>Field_Serialize := True\<rparr>)"

fun parameterFields :: "helpers \<Rightarrow> ParametersItem list \<Rightarrow> Type \<Rightarrow> Type" where
  "parameterFields E [] t = t"
| "parameterFields E (parametersItem # rest) t =
     parameterFields E rest
       (case GetParameter parametersItem of
          None \<Rightarrow> t
        | Some parameter \<Rightarrow> addField t (parameterField E parametersItem parameter))"

text \<open>The builder's model is threaded through: the result is paired with the new model.\<close>

definition buildTypeFromParameters ::
    "helpers \<Rightarrow> Model \<Rightarrow> string \<Rightarrow> ParametersItem list \<Rightarrow> (string \<times> error option) \<times> Model" where
  "buildTypeFromParameters E model name parameters =
    (let t = Type_zero\<lparr>Type_Name := name @ ''Parameters''\<rparr>;
         t = t\<lparr>Type_Description := Type_Name t @ '' holds parameters to '' @ name,
               Type_Kind := Some Kind_STRUCT,
               Type_Fields := []\<rparr>;
         t = parameterFields E parameters t
     in
     if length (Type_Fields t) > 0 then ((Type_Name t, None), addType model t)
     else (('''', None), model))"

section \<open>Responses\<close>

fun responseFields :: "helpers \<Rightarrow> NamedResponseValue list \<Rightarrow> Type \<Rightarrow> Type" where
  "responseFields E [] t = t"
| "responseFields E (responseCode # rest) t =
     responseFields E rest
       (let f = Field_zero\<lparr>Field_Name := NamedResponseValue_Name responseCode,
                           Field_Serialize := False\<rparr>
        in
        case GetResponse (NamedResponseValue_Value responseCode) of
          None \<Rightarrow> t
        | Some response \<Rightarrow>
            (case Response_Schema response of
               None \<Rightarrow> t
             | Some schemaItem \<Rightarrow>
                 (case SchemaItem_GetSchema schemaItem of
                    None \<Rightarrow> t
                  | Some s \<Rightarrow>
                      (let f = f\<lparr>Field_ValueType := typeForSchema E s\<rparr>;
                           f = f\<lparr>Field_Type := ''*'' @ Field_ValueType f\<rparr>
                       in addField t f))))"

text \<open>
  \<^verbatim>\<open>responses.ResponseCode\<close> is read without a nil test, so an operation with no
  responses object panics here. The method argument of the source is never used.
\<close>

definition buildTypeFromResponses ::
    "helpers \<Rightarrow> Model \<Rightarrow> string \<Rightarrow> Responses option
       \<Rightarrow> panic + ((string \<times> error option) \<times> Model)" where
  "buildTypeFromResponses E model name responses =
    (let t = Type_zero\<lparr>Type_Name := name @ ''Responses''\<rparr>;
         t = t\<lparr>Type_Description := Type_Name t @ '' holds responses of '' @ name,
               Type_Kind := Some Kind_STRUCT,
               Type_Fields := []\<rparr>
     in
     case responses of
       None \<Rightarrow> Inl NilPointerDereference
     | Some rs \<Rightarrow>
         (let t = responseFields E (ResponseCode rs) t in
          if length (Type_Fields t) > 0 then Inr ((Type_Name t, None), addType model t)
          else Inr (('''', None), model)))"

section \<open>Methods and the whole model\<close>

definition methodName :: "helpers \<Rightarrow> Operation \<Rightarrow> string \<Rightarrow> string \<Rightarrow> string" where
  "methodName E op method path =
    (let name = sanitizeOperationName E (OperationId op) in
     if name = '''' then generateOperationName E method path else name)"

definition buildMethodFromOperation ::
    "helpers \<Rightarrow> Model \<Rightarrow> Operation \<Rightarrow> string \<Rightarrow> string \<Rightarrow> panic + (error option \<times> Model)" where
  "buildMethodFromOperation E model op method path =
    (let m = Method_zero\<lparr>Method_Operation := OperationId op,
                         Method_Path := path,
                         Method_Method := method,
                         Method_Description := Operation_Description op\<rparr>;
         m = m\<lparr>Method_Name := methodName E op method path\<rparr>
     in
     case buildTypeFromParameters E model (Method_Name m) (Parameters op) of
       ((parametersTypeName, err), model) \<Rightarrow>
         (let m = m\<lparr>Method_ParametersTypeName := parametersTypeName\<rparr> in
          case buildTypeFromResponses E model (Method_Name m) (Operation_Responses op) of
            Inl p \<Rightarrow> Inl p
          | Inr ((responsesTypeName, err), model) \<Rightarrow>
              (let m = m\<lparr>Method_ResponsesTypeName := responsesTypeName\<rparr> in
               Inr (err, addMethod model m))))"

text \<open>
  The loop over the definitions. An error from \<^verbatim>\<open>buildTypeFromDefinition\<close> returns
  from \<^verbatim>\<open>build\<close> at once: the loop answers \<open>Some err\<close> then, and \<open>None\<close> when it ran
  to its end.
\<close>

fun buildDefinitions ::
    "helpers \<Rightarrow> NamedSchema list \<Rightarrow> Model \<Rightarrow> panic + (error option \<times> Model)" where
  "buildDefinitions E [] model = Inr (None, model)"
| "buildDefinitions E (pair # rest) model =
     (case buildTypeFromDefinition E (NamedSchema_Name pair) (NamedSchema_Value pair) of
        Inl p \<Rightarrow> Inl p
      | Inr (t, Some err) \<Rightarrow> Inr (Some err, model)
      | Inr (t, None) \<Rightarrow> buildDefinitions E rest (addType model t))"

text \<open>One verb of a path item: build the method when the operation is present. The value
  that \<^verbatim>\<open>buildMethodFromOperation\<close> returns is dropped by the caller.\<close>

definition buildVerb ::
    "helpers \<Rightarrow> Operation option \<Rightarrow> string \<Rightarrow> string \<Rightarrow> Model \<Rightarrow> panic + Model" where
  "buildVerb E operation method path model =
    (case operation of
       None \<Rightarrow> Inr model
     | Some op \<Rightarrow>
         (case buildMethodFromOperation E model op method path of
            Inl p \<Rightarrow> Inl p
          | Inr (err, model') \<Rightarrow> Inr model'))"

definition buildPathItem :: "helpers \<Rightarrow> NamedPathItem \<Rightarrow> Model \<Rightarrow> panic + Model" where
  "buildPathItem E pair model =
    (let v = NamedPathItem_Value pair in
     case buildVerb E (Get v) ''GET'' (NamedPathItem_Name pair) model of
       Inl p \<Rightarrow> Inl p
     | Inr model \<Rightarrow>
     (case buildVerb E (Post v) ''POST'' (NamedPathItem_Name pair) model of
       Inl p \<Rightarrow> Inl p
     | Inr model \<Rightarrow>
     (case buildVerb E (Put v) ''PUT'' (NamedPathItem_Name pair) model of
       Inl p \<Rightarrow> Inl p
     | Inr model \<Rightarrow> buildVerb E (Delete v) ''DELETE'' (NamedPathItem_Name pair) model)))"

fun buildPaths :: "helpers \<Rightarrow> NamedPathItem list \<Rightarrow> Model \<Rightarrow> panic + Model" where
  "buildPaths E [] model = Inr model"
| "buildPaths E (pair # rest) model =
     (case buildPathItem E pair model of
        Inl p \<Rightarrow> Inl p
      | Inr model' \<Rightarrow> buildPaths E rest model')"

text \<open>\<^verbatim>\<open>document.Paths.Path\<close> is read without a nil test.\<close>

definition build :: "helpers \<Rightarrow> Document \<Rightarrow> Model \<Rightarrow> panic + (error option \<times> Model)" where
  "build E document model =
    (case (case Document_Definitions document of
             None \<Rightarrow> Inr (None, model)
           | Some definitions \<Rightarrow>
               buildDefinitions E (Definitions_AdditionalProperties definitions) model) of
       Inl p \<Rightarrow> Inl p
     | Inr (Some err, model) \<Rightarrow> Inr (Some err, model)
     | Inr (None, model) \<Rightarrow>
         (case Document_Paths document of
            None \<Rightarrow> Inl NilPointerDereference
          | Some paths \<Rightarrow>
              (case buildPaths E (Path paths) model of
                 Inl p \<Rightarrow> Inl p
               | Inr model \<Rightarrow> Inr (None, model))))"

text \<open>\<^verbatim>\<open>document.Info.Title\<close> is read without a nil test, before anything else.\<close>

definition buildModel ::
    "helpers \<Rightarrow> Document \<Rightarrow> Model \<Rightarrow> panic + (Model option \<times> error option)" where
  "buildModel E document model =
    (case Document_Info document of
       None \<Rightarrow> Inl NilPointerDereference
     | Some info \<Rightarrow>
         (let model = model\<lparr>Model_Name := Title info, Model_Types := [], Model_Methods := []\<rparr> in
          case build E document model of
            Inl p \<Rightarrow> Inl p
          | Inr (Some err, model) \<Rightarrow> Inr (None, Some err)
          | Inr (None, model) \<Rightarrow> Inr (Some model, None)))"

definition NewModelFromOpenAPI2 ::
    "helpers \<Rightarrow> Document \<Rightarrow> panic + (Model option \<times> error option)" where
  "NewModelFromOpenAPI2 E document = buildModel E document Model_zero"

section \<open>The shapes and results that the properties speak of\<close>

text \<open>
  The definitions of this section are not code of the builder: they state, in the words of
  the spec, which shapes a rule recognizes and which value a translator is expected to
  produce, so that the builder can be compared with them.
\<close>

text \<open>The single entry of the declared type set, when the set has exactly one entry.\<close>

definition singleType :: "Schema \<Rightarrow> string option" where
  "singleType schema =
    (case Type schema of
       None \<Rightarrow> None
     | Some ty \<Rightarrow> (case Value ty of [t] \<Rightarrow> Some t | _ \<Rightarrow> None))"

text \<open>The reference of the item schema, when there is exactly one and it carries one.\<close>

definition singleItemRef :: "Schema \<Rightarrow> string option" where
  "singleItemRef schema =
    (case Items schema of
       None \<Rightarrow> None
     | Some its \<Rightarrow>
         (case ItemsItem_Schema its of
            [item] \<Rightarrow> (if XRef item \<noteq> '''' then Some (XRef item) else None)
          | _ \<Rightarrow> None))"



text \<open>The properties a definition declares: none when the properties section is absent.\<close>

definition declaredProperties :: "Schema \<Rightarrow> NamedSchema list" where
  "declaredProperties schema =
    (case Properties schema of
       None \<Rightarrow> []
     | Some props \<Rightarrow> Properties_AdditionalProperties props)"

text \<open>The field expected for one declared property.\<close>

definition propertyField :: "helpers \<Rightarrow> NamedSchema \<Rightarrow> Field" where
  "propertyField E pair2 =
     \<lparr>Field_Name = NamedSchema_Name pair2,
      Field_Type = typeForSchema E (NamedSchema_Value pair2),
      Field_ValueType = '''', Field_Format = '''', Field_Position = None,
      Field_Serialize = True\<rparr>"

text \<open>The type expected for a definition, with a given kind, field list and map type.\<close>

definition definitionType :: "string \<Rightarrow> Kind option \<Rightarrow> Field list \<Rightarrow> string \<Rightarrow> Type" where
  "definitionType name kind fs mapType =
     \<lparr>Type_Name = name,
      Type_Description = ''implements the service definition of '' @ name,
      Type_Kind = kind, Type_Fields = fs, Type_MapType = mapType\<rparr>"

text \<open>The schema that a status-code entry resolves to: the entry holds a response, the
  response a schema item, the item a schema.\<close>

definition responseSchema :: "NamedResponseValue \<Rightarrow> Schema option" where
  "responseSchema responseCode =
    (case GetResponse (NamedResponseValue_Value responseCode) of
       None \<Rightarrow> None
     | Some response \<Rightarrow>
         (case Response_Schema response of
            None \<Rightarrow> None
          | Some schemaItem \<Rightarrow> SchemaItem_GetSchema schemaItem))"

text \<open>The field expected for a status-code entry, if any.\<close>

definition responseField :: "helpers \<Rightarrow> NamedResponseValue \<Rightarrow> Field option" where
  "responseField E responseCode =
    (case responseSchema responseCode of
       None \<Rightarrow> None
     | Some s \<Rightarrow>
         Some \<lparr>Field_Name = NamedResponseValue_Name responseCode,
               Field_Type = ''*'' @ typeForSchema E s,
               Field_ValueType = typeForSchema E s,
               Field_Format = '''', Field_Position = None, Field_Serialize = False\<rparr>)"

text \<open>The field of a parameter entry, if the entry holds a parameter.\<close>

definition usableParameterField :: "helpers \<Rightarrow> ParametersItem \<Rightarrow> Field option" where
  "usableParameterField E parametersItem =
    (case GetParameter parametersItem of
       None \<Rightarrow> None
     | Some parameter \<Rightarrow> Some (parameterField E parametersItem parameter))"

text \<open>The two synthesized holder types.\<close>

definition parametersType :: "helpers \<Rightarrow> string \<Rightarrow> ParametersItem list \<Rightarrow> Type" where
  "parametersType E name parameters =
     \<lparr>Type_Name = name @ ''Parameters'',
      Type_Description = name @ ''Parameters'' @ '' holds parameters to '' @ name,
      Type_Kind = Some Kind_STRUCT,
      Type_Fields = List.map_filter (usableParameterField E) parameters,
      Type_MapType = ''''\<rparr>"

definition responsesType :: "helpers \<Rightarrow> string \<Rightarrow> Responses \<Rightarrow> Type" where
  "responsesType E name responses =
     \<lparr>Type_Name = name @ ''Responses'',
      Type_Description = name @ ''Responses'' @ '' holds responses of '' @ name,
      Type_Kind = Some Kind_STRUCT,
      Type_Fields = List.map_filter (responseField E) (ResponseCode responses),
      Type_MapType = ''''\<rparr>"

text \<open>The (verb, path) pairs of a path item: one for each of the four recognized verbs
  that is present, in the order GET, POST, PUT, DELETE.\<close>

definition verbMethods :: "string \<Rightarrow> Operation option \<Rightarrow> string \<Rightarrow> (string \<times> string) list" where
  "verbMethods method operation path =
    (case operation of None \<Rightarrow> [] | Some op \<Rightarrow> [(method, path)])"

definition recognizedVerbs :: "NamedPathItem \<Rightarrow> (string \<times> string) list" where
  "recognizedVerbs pair =
    (let v = NamedPathItem_Value pair; path = NamedPathItem_Name pair in
     verbMethods ''GET'' (Get v) path @ verbMethods ''POST'' (Post v) path
     @ verbMethods ''PUT'' (Put v) path @ verbMethods ''DELETE'' (Delete v) path)"

definition verbAndPath :: "Method \<Rightarrow> string \<times> string" where
  "verbAndPath m = (Method_Method m, Method_Path m)"

text \<open>A path item that exposes none of the four recognized verbs.\<close>

definition noRecognizedVerb :: "NamedPathItem \<Rightarrow> bool" where
  "noRecognizedVerb pair =
    (let v = NamedPathItem_Value pair in
     Get v = None \<and> Post v = None \<and> Put v = None \<and> Delete v = None)"

text \<open>The inputs on which the translation meets no nil pointer: every operation under one
  of the four recognized verbs has a responses object, every definition has a declared
  property or an additional-properties clause that is absent or holds a schema, and the
  document has its info and paths sections.\<close>

definition operationBuilds :: "Operation option \<Rightarrow> bool" where
  "operationBuilds operation =
    (case operation of None \<Rightarrow> True | Some op \<Rightarrow> Operation_Responses op \<noteq> None)"

definition pathItemBuilds :: "NamedPathItem \<Rightarrow> bool" where
  "pathItemBuilds pair =
    (let v = NamedPathItem_Value pair in
     operationBuilds (Get v) \<and> operationBuilds (Post v)
     \<and> operationBuilds (Put v) \<and> operationBuilds (Delete v))"

definition definitionBuilds :: "NamedSchema \<Rightarrow> bool" where
  "definitionBuilds pair =
    (let schema = NamedSchema_Value pair in
     declaredProperties schema \<noteq> []
     \<or> (case AdditionalProperties schema of
           None \<Rightarrow> True
         | Some ap \<Rightarrow> AdditionalPropertiesItem_GetSchema ap \<noteq> None))"

definition documentBuilds :: "Document \<Rightarrow> bool" where
  "documentBuilds document =
    (Document_Info document \<noteq> None
     \<and> (case Document_Definitions document of
           None \<Rightarrow> True
         | Some definitions \<Rightarrow>
             list_all definitionBuilds (Definitions_AdditionalProperties definitions))
     \<and> (case Document_Paths document of
           None \<Rightarrow> False
         | Some paths \<Rightarrow> list_all pathItemBuilds (Path paths)))"

section \<open>Concrete inputs\<close>

text \<open>
  The theorems hold for all helpers. To run the builder on a concrete document, the
  helpers are instantiated as follows.
\<close>

text \<open>Modelled from the spec: a normalization of references in the place of
  \<^verbatim>\<open>typeForRef\<close>, which is missing from the sources. The spec says that a pointer such as
  \<^verbatim>\<open>#/definitions/Foo\<close> becomes the bare name \<^verbatim>\<open>Foo\<close>: the text after the last
  slash.\<close>

definition bareName :: "string \<Rightarrow> string" where
  "bareName ref = rev (takeWhile (\<lambda>c. c \<noteq> CHR ''/'') (rev ref))"

text \<open>A stand-in for the rendering of a schema: its declared types between braces.\<close>

definition dumpSchema :: "Schema \<Rightarrow> string" where
  "dumpSchema s =
     ''{'' @ concat (map (\<lambda>t. t @ '' '') (case Type s of None \<Rightarrow> [] | Some ty \<Rightarrow> Value ty)) @ ''}''"

text \<open>The instance: the sanitizer keeps the identifier, the synthesized name joins the verb
  and the path without its braces and slashes, and every parameters item renders as the
  same word. The last three are stand-ins, as the spec leaves them open.\<close>

definition example_helpers :: helpers where
  "example_helpers =
     \<lparr>typeForRef = bareName,
      sanitizeOperationName = (\<lambda>s. s),
      generateOperationName =
        (\<lambda>method path. method @ filter (\<lambda>c. c \<noteq> CHR ''{'' \<and> c \<noteq> CHR ''}'' \<and> c \<noteq> CHR ''/'') path),
      Sprintf_v = dumpSchema,
      Sprintf_plus_v = (\<lambda>p. ''parameter'')\<rparr>"

text \<open>A schema with a reference only, and one with a type set and a format only.\<close>

definition refSchema :: "string \<Rightarrow> Schema" where
  "refSchema ref = Schema ref '''' None None None None"

definition typedSchema :: "string list \<Rightarrow> string \<Rightarrow> Schema" where
  "typedSchema types format = Schema '''' format (Some (TypeItem types)) None None None"

text \<open>The schema \<^verbatim>\<open>{type: array, items: {$ref: "#/definitions/Pet"}}\<close>.\<close>

definition petArraySchema :: Schema where
  "petArraySchema =
     Schema '''' '''' (Some (TypeItem [''array'']))
       (Some (ItemsItem [refSchema ''#/definitions/Pet''])) None None"

text \<open>A schema with a reference and, beside it, a type, items and an additional-properties
  clause.\<close>

definition crowdedRefSchema :: Schema where
  "crowdedRefSchema =
     Schema ''#/definitions/Pet'' ''int32'' (Some (TypeItem [''integer'']))
       (Some (ItemsItem [refSchema ''#/definitions/Toy'']))
       None
       (Some (AdditionalPropertiesItem_Schema (refSchema ''#/definitions/Toy'')))"


text \<open>The definition \<^verbatim>\<open>{additionalProperties: true}\<close>.\<close>

definition booleanMapSchema :: Schema where
  "booleanMapSchema =
     Schema '''' '''' None None None (Some (AdditionalPropertiesItem_Boolean True))"

text \<open>The definition \<^verbatim>\<open>{additionalProperties: {$ref: "#/definitions/Pet"}}\<close>.\<close>

definition refMapSchema :: Schema where
  "refMapSchema =
     Schema '''' '''' None None None
       (Some (AdditionalPropertiesItem_Schema (refSchema ''#/definitions/Pet'')))"

text \<open>The definition \<^verbatim>\<open>{properties: {name: {type: string}}}\<close>.\<close>

definition petSchema :: Schema where
  "petSchema =
     Schema '''' '''' None None
       (Some (Properties_of [NamedSchema ''name'' (typedSchema [''string''] '''')])) None"

text \<open>A response map with a schema under \<^verbatim>\<open>200\<close> and an empty-body \<^verbatim>\<open>204\<close>.\<close>

definition petResponses :: Responses where
  "petResponses =
     Responses
       [NamedResponseValue ''200''
          (Some (ResponseValue_Response
             (Response (Some (SchemaItem_Schema (refSchema ''#/definitions/Pet'')))))),
        NamedResponseValue ''204'' (Some (ResponseValue_Response (Response None)))]"

definition idParameter :: ParametersItem where
  "idParameter =
     ParametersItem_Parameter (Parameter_NonBodyParameter
       (NonBodyParameter_PathParameterSubSchema (ParameterSubSchema ''id'' ''string'' '''')))"

definition getPet :: Operation where
  "getPet = Operation ''getPet'' '''' [idParameter] (Some petResponses)"

definition anonymousOperation :: Operation where
  "anonymousOperation = Operation '''' '''' [] (Some (Responses []))"

text \<open>The document of the round-trip scenario, with a DELETE operation added to its path
  and a second path that exposes only a PATCH operation.\<close>

definition petsDocument :: Document where
  "petsDocument =
     Document (Some (Info ''Pets''))
       (Some (Definitions [NamedSchema ''Pet'' petSchema]))
       (Some (Paths
          [NamedPathItem ''/pets/{id}''
             (PathItem (Some getPet) None None (Some anonymousOperation) None None None),
           NamedPathItem ''/pets''
             (PathItem None None None None None None (Some anonymousOperation))]))"

text \<open>A document with a title and a paths section whose only definition is
  \<^verbatim>\<open>{additionalProperties: true}\<close>.\<close>

definition booleanMapDocument :: Document where
  "booleanMapDocument =
     Document (Some (Info ''T''))
       (Some (Definitions [NamedSchema ''M'' booleanMapSchema]))
       (Some (Paths []))"

section \<open>Facts about the loops\<close>

lemma length_one_nth: "(length xs = 1 \<and> xs ! 0 = x) = (xs = [x])"
  by (cases xs) auto

lemma singleType_eq:
  "singleType schema = Some t \<longleftrightarrow> (\<exists>ty. Type schema = Some ty \<and> Value ty = [t])"
  by (auto simp: singleType_def split: option.splits list.splits)

lemma map_filter_Nil_iff: "(List.map_filter f xs = []) = (\<forall>x\<in>set xs. f x = None)"
  by (induction xs) (auto simp: List.map_filter_simps split: option.splits)

lemma propertyFields_eq:
  "propertyFields E ps t = t\<lparr>Type_Fields := Type_Fields t @ map (propertyField E) ps\<rparr>"
  by (induction ps arbitrary: t) (simp_all add: addField_def propertyField_def Field_zero_def)

lemma responseFields_eq:
  "responseFields E rcs t =
     t\<lparr>Type_Fields := Type_Fields t @ List.map_filter (responseField E) rcs\<rparr>"
proof (induction rcs arbitrary: t)
  case Nil
  show ?case by (simp add: List.map_filter_simps)
next
  case (Cons rc rcs)
  show ?case
    by (simp add: Cons.IH List.map_filter_simps responseField_def responseSchema_def
        addField_def Field_zero_def Let_def split: option.splits)
qed

lemma parameterFields_eq:
  "parameterFields E ps t =
     t\<lparr>Type_Fields := Type_Fields t @ List.map_filter (usableParameterField E) ps\<rparr>"
proof (induction ps arbitrary: t)
  case Nil
  show ?case by (simp add: List.map_filter_simps)
next
  case (Cons p ps)
  show ?case
    by (simp add: Cons.IH List.map_filter_simps usableParameterField_def addField_def
        split: option.splits)
qed

section \<open>Facts about the translators\<close>



lemma buildTypeFromDefinition_struct:
  assumes "declaredProperties schema \<noteq> []"
  shows "buildTypeFromDefinition E name schema =
     Inr (definitionType name (Some Kind_STRUCT)
            (map (propertyField E) (declaredProperties schema)) '''', None)"
  using assms
  by (auto simp: buildTypeFromDefinition_def declaredProperties_def propertyFields_eq
      Type_zero_def definitionType_def Let_def split: option.splits)

lemma buildTypeFromDefinition_noprops:
  assumes "declaredProperties schema = []"
  shows "buildTypeFromDefinition E name schema =
     (case AdditionalProperties schema of
        None \<Rightarrow> Inr (definitionType name None [] '''', None)
      | Some ap \<Rightarrow>
          (case AdditionalPropertiesItem_GetSchema ap of
             None \<Rightarrow> Inl NilPointerDereference
           | Some s \<Rightarrow>
               Inr (definitionType name (Some Kind_MAP) [] (typeForRef E (XRef s)), None)))"
  using assms
  by (auto simp: buildTypeFromDefinition_def declaredProperties_def propertyFields_eq
      Type_zero_def definitionType_def Let_def split: option.splits)

lemma buildTypeFromDefinition_err:
  "buildTypeFromDefinition E name schema = Inr (t, err) \<Longrightarrow> err = None"
  by (auto simp: buildTypeFromDefinition_def Let_def split: if_splits option.splits)

lemma buildTypeFromParameters_eq:
  "buildTypeFromParameters E model name parameters =
    (if Type_Fields (parametersType E name parameters) = [] then (('''', None), model)
     else ((name @ ''Parameters'', None), addType model (parametersType E name parameters)))"
  by (simp add: buildTypeFromParameters_def parameterFields_eq Type_zero_def
      parametersType_def Let_def)

lemma buildTypeFromResponses_eq:
  "buildTypeFromResponses E model name (Some responses) =
    (if Type_Fields (responsesType E name responses) = [] then Inr (('''', None), model)
     else Inr ((name @ ''Responses'', None), addType model (responsesType E name responses)))"
  by (simp add: buildTypeFromResponses_def responseFields_eq Type_zero_def
      responsesType_def Let_def)

lemma buildTypeFromParameters_methods:
  "buildTypeFromParameters E model name parameters = (r, model')
   \<Longrightarrow> Model_Methods model' = Model_Methods model"
  by (auto simp: buildTypeFromParameters_def addType_def Let_def split: if_splits)

lemma buildTypeFromResponses_methods:
  "buildTypeFromResponses E model name responses = Inr (r, model')
   \<Longrightarrow> Model_Methods model' = Model_Methods model"
  by (auto simp: buildTypeFromResponses_def addType_def Let_def split: if_splits option.splits)

lemma buildMethodFromOperation_methods:
  assumes "buildMethodFromOperation E model op method path = Inr (err, model')"
  shows "\<exists>m. Model_Methods model' = Model_Methods model @ [m]
            \<and> Method_Method m = method \<and> Method_Path m = path
            \<and> Method_Name m = methodName E op method path
            \<and> Method_Operation m = OperationId op"
proof -
  obtain r1 model1 where
    p: "buildTypeFromParameters E model (methodName E op method path) (Parameters op)
          = (r1, model1)"
    by (cases "buildTypeFromParameters E model (methodName E op method path) (Parameters op)")
       auto
  have m1: "Model_Methods model1 = Model_Methods model"
    using buildTypeFromParameters_methods[OF p] .
  from assms p obtain r2 model2 where
    q: "buildTypeFromResponses E model1 (methodName E op method path) (Operation_Responses op)
          = Inr (r2, model2)"
    and res: "model' = addMethod model2
        (Method_zero\<lparr>Method_Operation := OperationId op, Method_Path := path,
            Method_Method := method, Method_Description := Operation_Description op,
            Method_Name := methodName E op method path,
            Method_ParametersTypeName := fst r1, Method_ResponsesTypeName := fst r2\<rparr>)"
    by (cases r1) (auto simp: buildMethodFromOperation_def Let_def split: sum.splits prod.splits)
  have m2: "Model_Methods model2 = Model_Methods model1"
    using buildTypeFromResponses_methods[OF q] .
  show ?thesis
    by (simp add: res addMethod_def m1 m2)
qed

lemma buildVerb_methods:
  assumes "buildVerb E operation method path model = Inr model'"
  shows "map verbAndPath (Model_Methods model')
         = map verbAndPath (Model_Methods model) @ verbMethods method operation path"
proof (cases operation)
  case None
  with assms show ?thesis by (simp add: buildVerb_def verbMethods_def)
next
  case (Some op)
  with assms obtain err where
    "buildMethodFromOperation E model op method path = Inr (err, model')"
    by (auto simp: buildVerb_def split: sum.splits)
  from buildMethodFromOperation_methods[OF this] Some show ?thesis
    by (auto simp: verbMethods_def verbAndPath_def)
qed

lemma buildPathItem_methods:
  assumes "buildPathItem E pair model = Inr model'"
  shows "map verbAndPath (Model_Methods model')
         = map verbAndPath (Model_Methods model) @ recognizedVerbs pair"
proof -
  let ?v = "NamedPathItem_Value pair" and ?n = "NamedPathItem_Name pair"
  from assms obtain m1 m2 m3 where
    a: "buildVerb E (Get ?v) ''GET'' ?n model = Inr m1" and
    b: "buildVerb E (Post ?v) ''POST'' ?n m1 = Inr m2" and
    c: "buildVerb E (Put ?v) ''PUT'' ?n m2 = Inr m3" and
    d: "buildVerb E (Delete ?v) ''DELETE'' ?n m3 = Inr model'"
    by (auto simp: buildPathItem_def Let_def split: sum.splits)
  show ?thesis
    using buildVerb_methods[OF a] buildVerb_methods[OF b] buildVerb_methods[OF c]
      buildVerb_methods[OF d]
    by (simp add: recognizedVerbs_def Let_def)
qed

lemma buildPaths_methods:
  "buildPaths E pairs model = Inr model' \<Longrightarrow>
   map verbAndPath (Model_Methods model')
   = map verbAndPath (Model_Methods model) @ concat (map recognizedVerbs pairs)"
proof (induction pairs arbitrary: model)
  case Nil
  then show ?case by simp
next
  case (Cons pair pairs)
  from Cons.prems obtain m1 where
    a: "buildPathItem E pair model = Inr m1" and b: "buildPaths E pairs m1 = Inr model'"
    by (auto split: sum.splits)
  show ?case using buildPathItem_methods[OF a] Cons.IH[OF b] by simp
qed

lemma buildDefinitions_methods:
  "buildDefinitions E pairs model = Inr (err, model')
   \<Longrightarrow> err = None \<and> Model_Methods model' = Model_Methods model"
proof (induction pairs arbitrary: model)
  case Nil
  then show ?case by simp
next
  case (Cons pair pairs)
  from Cons.prems obtain t where
    b: "buildDefinitions E pairs (addType model t) = Inr (err, model')"
    by (auto split: sum.splits option.splits dest: buildTypeFromDefinition_err)
  show ?case using Cons.IH[OF b] by (simp add: addType_def)
qed

lemma build_methods:
  assumes "build E document model = Inr (err, model')"
  shows "err = None \<and> (\<exists>paths. Document_Paths document = Some paths \<and>
     map verbAndPath (Model_Methods model')
     = map verbAndPath (Model_Methods model) @ concat (map recognizedVerbs (Path paths)))"
proof -
  define r where "r = (case Document_Definitions document of
             None \<Rightarrow> Inr (None, model)
           | Some definitions \<Rightarrow>
               buildDefinitions E (Definitions_AdditionalProperties definitions) model)"
  from assms obtain e1 m1 where r: "r = Inr (e1, m1)"
    by (cases r) (auto simp: build_def r_def[symmetric])
  have e1: "e1 = None" and mm: "Model_Methods m1 = Model_Methods model"
    using r buildDefinitions_methods[of E _ model e1 m1]
    by (auto simp: r_def split: option.splits)
  from assms r e1 obtain paths where p: "Document_Paths document = Some paths"
    and bp: "buildPaths E (Path paths) m1 = Inr model'" and "err = None"
    by (auto simp: build_def r_def[symmetric] split: option.splits sum.splits)
  with buildPaths_methods[OF bp] mm show ?thesis by simp
qed

lemma recognizedVerbs_none: "noRecognizedVerb pair \<Longrightarrow> recognizedVerbs pair = []"
  by (simp add: noRecognizedVerb_def recognizedVerbs_def verbMethods_def Let_def)

section \<open>When the translation returns\<close>

lemma buildMethodFromOperation_returns:
  "(\<exists>r. buildMethodFromOperation E model op method path = Inr r)
   = (Operation_Responses op \<noteq> None)"
proof (cases "Operation_Responses op")
  case None
  then show ?thesis
    by (simp add: buildMethodFromOperation_def buildTypeFromResponses_def Let_def
        split: prod.splits)
next
  case (Some responses)
  then show ?thesis
    by (simp add: buildMethodFromOperation_def buildTypeFromParameters_eq
      buildTypeFromResponses_eq Let_def)
qed

lemma buildVerb_returns:
  "(\<exists>model'. buildVerb E operation method path model = Inr model') = operationBuilds operation"
proof (cases operation)
  case None
  then show ?thesis by (simp add: buildVerb_def operationBuilds_def)
next
  case (Some op)
  show ?thesis
  proof (cases "buildMethodFromOperation E model op method path")
    case (Inl p)
    with buildMethodFromOperation_returns[of E model op "method" "path"] Some show ?thesis
      by (simp add: buildVerb_def operationBuilds_def)
  next
    case (Inr r)
    with buildMethodFromOperation_returns[of E model op "method" "path"] Some show ?thesis
      by (simp add: buildVerb_def operationBuilds_def split: prod.splits)
  qed
qed

lemma buildPathItem_returns:
  "(\<exists>model'. buildPathItem E pair model = Inr model') = pathItemBuilds pair"
proof -
  let ?v = "NamedPathItem_Value pair" and ?n = "NamedPathItem_Name pair"
  show ?thesis
  proof (cases "buildVerb E (Get ?v) ''GET'' ?n model")
    case (Inl p)
    with buildVerb_returns[of E "Get ?v" "''GET''" ?n model] show ?thesis
      by (simp add: buildPathItem_def pathItemBuilds_def Let_def)
  next
    case a: (Inr m1)
    with buildVerb_returns[of E "Get ?v" "''GET''" ?n model] have g: "operationBuilds (Get ?v)"
      by auto
    show ?thesis
    proof (cases "buildVerb E (Post ?v) ''POST'' ?n m1")
      case (Inl p)
      with buildVerb_returns[of E "Post ?v" "''POST''" ?n m1] a show ?thesis
        by (simp add: buildPathItem_def pathItemBuilds_def Let_def)
    next
      case b: (Inr m2)
      with buildVerb_returns[of E "Post ?v" "''POST''" ?n m1] have po: "operationBuilds (Post ?v)"
        by auto
      show ?thesis
      proof (cases "buildVerb E (Put ?v) ''PUT'' ?n m2")
        case (Inl p)
        with buildVerb_returns[of E "Put ?v" "''PUT''" ?n m2] a b show ?thesis
          by (simp add: buildPathItem_def pathItemBuilds_def Let_def)
      next
        case c: (Inr m3)
        with buildVerb_returns[of E "Put ?v" "''PUT''" ?n m2] have pu: "operationBuilds (Put ?v)"
          by auto
        show ?thesis
          using a b c g po pu buildVerb_returns[of E "Delete ?v" "''DELETE''" ?n m3]
          by (simp add: buildPathItem_def pathItemBuilds_def Let_def)
      qed
    qed
  qed
qed

lemma buildPaths_returns:
  "(\<exists>model'. buildPaths E pairs model = Inr model') = list_all pathItemBuilds pairs"
proof (induction pairs arbitrary: model)
  case Nil
  show ?case by simp
next
  case (Cons pair pairs)
  show ?case
  proof (cases "buildPathItem E pair model")
    case (Inl p)
    with buildPathItem_returns[of E pair model] show ?thesis by simp
  next
    case (Inr m1)
    with buildPathItem_returns[of E pair model] Cons.IH[of m1] show ?thesis by simp
  qed
qed

lemma buildTypeFromDefinition_returns:
  "(\<exists>t. buildTypeFromDefinition E (NamedSchema_Name pair) (NamedSchema_Value pair) = Inr (t, None))
   = definitionBuilds pair"
proof (cases "declaredProperties (NamedSchema_Value pair) = []")
  case True
  then show ?thesis
    by (auto simp: buildTypeFromDefinition_noprops definitionBuilds_def split: option.splits)
next
  case False
  then show ?thesis
    by (simp add: buildTypeFromDefinition_struct definitionBuilds_def)
qed

lemma buildDefinitions_returns:
  "(\<exists>model'. buildDefinitions E pairs model = Inr (None, model')) = list_all definitionBuilds pairs"
proof (induction pairs arbitrary: model)
  case Nil
  show ?case by simp
next
  case (Cons pair pairs)
  show ?case
  proof (cases "buildTypeFromDefinition E (NamedSchema_Name pair) (NamedSchema_Value pair)")
    case (Inl p)
    with buildTypeFromDefinition_returns[of E pair] show ?thesis by simp
  next
    case (Inr r)
    obtain t err where r: "r = (t, err)" by (cases r)
    with Inr buildTypeFromDefinition_err[of E _ _ t err] have e: "err = None" by simp
    with Inr r buildTypeFromDefinition_returns[of E pair] Cons.IH[of "addType model t"]
    show ?thesis by simp
  qed
qed

lemma build_returns:
  "(\<exists>model'. build E document model = Inr (None, model'))
   = ((case Document_Definitions document of
           None \<Rightarrow> True
         | Some definitions \<Rightarrow>
             list_all definitionBuilds (Definitions_AdditionalProperties definitions))
     \<and> (case Document_Paths document of
           None \<Rightarrow> False
         | Some paths \<Rightarrow> list_all pathItemBuilds (Path paths)))"
proof -
  define r where "r = (case Document_Definitions document of
             None \<Rightarrow> Inr (None, model)
           | Some definitions \<Rightarrow>
               buildDefinitions E (Definitions_AdditionalProperties definitions) model)"
  show ?thesis
  proof (cases r)
    case (Inl p)
    have "\<not> (case Document_Definitions document of
           None \<Rightarrow> True
         | Some definitions \<Rightarrow>
             list_all definitionBuilds (Definitions_AdditionalProperties definitions))"
    proof (cases "Document_Definitions document")
      case None
      with Inl show ?thesis by (simp add: r_def)
    next
      case (Some definitions)
      with Inl
        buildDefinitions_returns[of E "Definitions_AdditionalProperties definitions" model]
      show ?thesis by (simp add: r_def)
    qed
    with Inl show ?thesis
      by (simp add: build_def r_def[symmetric])
  next
    case (Inr x)
    obtain e1 m1 where x: "x = (e1, m1)" by (cases x)
    have e1: "e1 = None"
      using Inr x buildDefinitions_methods[of E _ model e1 m1]
      by (auto simp: r_def split: option.splits)
    have d: "(case Document_Definitions document of
           None \<Rightarrow> True
         | Some definitions \<Rightarrow>
             list_all definitionBuilds (Definitions_AdditionalProperties definitions))"
    proof (cases "Document_Definitions document")
      case None
      then show ?thesis by simp
    next
      case (Some definitions)
      with Inr x e1
        buildDefinitions_returns[of E "Definitions_AdditionalProperties definitions" model]
      show ?thesis by (auto simp: r_def)
    qed
    show ?thesis
    proof (cases "Document_Paths document")
      case None
      with Inr x e1 show ?thesis by (simp add: build_def r_def[symmetric])
    next
      case (Some paths)
      with Inr x e1 d buildPaths_returns[of E "Path paths" m1] show ?thesis
        by (auto simp: build_def r_def[symmetric] split: sum.splits)
    qed
  qed
qed

lemma NewModelFromOpenAPI2_returns:
  "(\<exists>model. NewModelFromOpenAPI2 E document = Inr (Some model, None)) = documentBuilds document"
proof (cases "Document_Info document")
  case None
  then show ?thesis
    by (simp add: NewModelFromOpenAPI2_def buildModel_def documentBuilds_def)
next
  case (Some info)
  let ?m = "Model_zero\<lparr>Model_Name := Title info, Model_Types := [], Model_Methods := []\<rparr>"
  have "(\<exists>model. NewModelFromOpenAPI2 E document = Inr (Some model, None))
        = (\<exists>model'. build E document ?m = Inr (None, model'))"
    using Some
    by (auto simp: NewModelFromOpenAPI2_def buildModel_def Let_def split: sum.splits option.splits)
  with build_returns[of E document ?m] Some show ?thesis
    by (simp add: documentBuilds_def)
qed

lemma NewModelFromOpenAPI2_result:
  assumes "NewModelFromOpenAPI2 E document = Inr (result, err)"
  shows "\<exists>model. result = Some model \<and> err = None"
proof -
  from assms obtain info e m where
    b: "build E document
        (Model_zero\<lparr>Model_Name := Title info, Model_Types := [], Model_Methods := []\<rparr>)
        = Inr (e, m)"
    and i: "Document_Info document = Some info"
    by (auto simp: NewModelFromOpenAPI2_def buildModel_def Let_def
        split: option.splits sum.splits)
  from build_methods[OF b] have "e = None" by simp
  with assms i b show ?thesis
    by (auto simp: NewModelFromOpenAPI2_def buildModel_def Let_def)
qed

lemma NewModelFromOpenAPI2_panics:
  "(NewModelFromOpenAPI2 E document = Inl NilPointerDereference) = (\<not> documentBuilds document)"
proof (cases "NewModelFromOpenAPI2 E document")
  case (Inl p)
  with NewModelFromOpenAPI2_returns[of E document] show ?thesis
    by (cases p) auto
next
  case (Inr r)
  obtain result err where r: "r = (result, err)" by (cases r)
  from Inr r have "\<exists>model. result = Some model \<and> err = None"
    using NewModelFromOpenAPI2_result[of E document result err] by auto
  with Inr r NewModelFromOpenAPI2_returns[of E document] show ?thesis
    by auto
qed

section \<open>Properties of type inference\<close>

text \<open>C1: a schema node whose reference is not empty is typed by \<^verbatim>\<open>typeForRef\<close> of
  that reference, whatever its type set, items and additional-properties clause hold.\<close>

theorem typeForSchema_ref_first:
  "XRef schema \<noteq> '''' \<Longrightarrow> typeForSchema E schema = typeForRef E (XRef schema)"
  by (simp add: typeForSchema_def)

theorem typeForSchema_ref_first_witness:
  "XRef crowdedRefSchema \<noteq> '''' \<and> typeForSchema example_helpers crowdedRefSchema = ''Pet''"
proof -
  have h: "XRef crowdedRefSchema \<noteq> ''''"
    by (simp add: crowdedRefSchema_def)
  show ?thesis
    using h typeForSchema_ref_first[OF h, of example_helpers]
    by (simp add: crowdedRefSchema_def example_helpers_def bareName_def)
qed

text \<open>C2: a schema node without a reference whose declared type set has exactly one entry
  is typed \<^verbatim>\<open>string\<close> for "string", \<^verbatim>\<open>int32\<close> for "integer" with format "int32",
  \<^verbatim>\<open>int\<close> for "integer" with any other format and for "number", \<^verbatim>\<open>[]\<close> followed by
  the normalized item reference for "array" with a single referenced item, and
  \<^verbatim>\<open>map[string]interface{}\<close> for "object" without an additional-properties clause.\<close>

theorem typeForSchema_single_type:
  assumes "XRef schema = ''''" and "singleType schema = Some t"
  shows "(t = ''string'' \<longrightarrow> typeForSchema E schema = ''string'')
       \<and> (t = ''integer'' \<and> Format schema = ''int32'' \<longrightarrow> typeForSchema E schema = ''int32'')
       \<and> (t = ''integer'' \<and> Format schema \<noteq> ''int32'' \<longrightarrow> typeForSchema E schema = ''int'')
       \<and> (t = ''number'' \<longrightarrow> typeForSchema E schema = ''int'')
       \<and> (\<forall>ref. t = ''array'' \<and> singleItemRef schema = Some ref
              \<longrightarrow> typeForSchema E schema = ''[]'' @ typeForRef E ref)
       \<and> (t = ''object'' \<and> AdditionalProperties schema = None
              \<longrightarrow> typeForSchema E schema = ''map[string]interface{}'')"
  using assms
  by (auto simp: typeForSchema_def typeForDeclaredType_def singleType_eq singleItemRef_def
      length_one_nth split: option.splits list.splits if_splits)

theorem typeForSchema_single_type_witness:
  "typeForSchema example_helpers (typedSchema [''string''] '''') = ''string''
   \<and> typeForSchema example_helpers (typedSchema [''integer''] ''int32'') = ''int32''
   \<and> typeForSchema example_helpers (typedSchema [''integer''] ''int64'') = ''int''
   \<and> typeForSchema example_helpers (typedSchema [''number''] ''double'') = ''int''
   \<and> typeForSchema example_helpers petArraySchema = ''[]Pet''
   \<and> typeForSchema example_helpers (typedSchema [''object''] '''') = ''map[string]interface{}''"
proof -
  have b: "typeForRef example_helpers ''#/definitions/Pet'' = ''Pet''"
    by (simp add: example_helpers_def bareName_def)
  have 1: "typeForSchema example_helpers (typedSchema [''string''] '''') = ''string''"
    using typeForSchema_single_type[where schema = "typedSchema [''string''] ''''"
        and t = "''string''" and E = example_helpers]
    by (simp add: typedSchema_def singleType_def)
  have 2: "typeForSchema example_helpers (typedSchema [''integer''] ''int32'') = ''int32''"
    using typeForSchema_single_type[where schema = "typedSchema [''integer''] ''int32''"
        and t = "''integer''" and E = example_helpers]
    by (simp add: typedSchema_def singleType_def)
  have 3: "typeForSchema example_helpers (typedSchema [''integer''] ''int64'') = ''int''"
    using typeForSchema_single_type[where schema = "typedSchema [''integer''] ''int64''"
        and t = "''integer''" and E = example_helpers]
    by (simp add: typedSchema_def singleType_def)
  have 4: "typeForSchema example_helpers (typedSchema [''number''] ''double'') = ''int''"
    using typeForSchema_single_type[where schema = "typedSchema [''number''] ''double''"
        and t = "''number''" and E = example_helpers]
    by (simp add: typedSchema_def singleType_def)
  have 5: "typeForSchema example_helpers petArraySchema = ''[]Pet''"
    using typeForSchema_single_type[where schema = petArraySchema
        and t = "''array''" and E = example_helpers] b
    by (simp add: petArraySchema_def singleType_def singleItemRef_def refSchema_def)
  have 6: "typeForSchema example_helpers (typedSchema [''object''] '''')
             = ''map[string]interface{}''"
    using typeForSchema_single_type[where schema = "typedSchema [''object''] ''''"
        and t = "''object''" and E = example_helpers]
    by (simp add: typedSchema_def singleType_def)
  from 1 2 3 4 5 6 show ?thesis by simp
qed



section \<open>Properties of the definition translator\<close>




text \<open>C10: \<^verbatim>\<open>buildTypeFromDefinition\<close> dereferences a nil pointer exactly when the
  definition yields no field from its properties and has an additional-properties clause
  whose getter returns no schema, as the boolean form does.\<close>

theorem buildTypeFromDefinition_nil_dereference:
  "(buildTypeFromDefinition E name schema = Inl NilPointerDereference)
   = (declaredProperties schema = []
      \<and> (case AdditionalProperties schema of
           None \<Rightarrow> False
         | Some ap \<Rightarrow> AdditionalPropertiesItem_GetSchema ap = None))"
proof (cases "declaredProperties schema = []")
  case True
  then show ?thesis
    by (simp add: buildTypeFromDefinition_noprops split: option.splits)
next
  case False
  then show ?thesis
    by (simp add: buildTypeFromDefinition_struct)
qed

theorem buildTypeFromDefinition_nil_dereference_witness:
  "buildTypeFromDefinition example_helpers ''M'' booleanMapSchema = Inl NilPointerDereference
   \<and> buildTypeFromDefinition example_helpers ''M'' refMapSchema \<noteq> Inl NilPointerDereference"
  using buildTypeFromDefinition_nil_dereference[of example_helpers "''M''" booleanMapSchema]
    buildTypeFromDefinition_nil_dereference[of example_helpers "''M''" refMapSchema]
  by (simp add: declaredProperties_def booleanMapSchema_def refMapSchema_def)

section \<open>Properties of the parameter and response translators\<close>

text \<open>C5: when the parameter list yields no field, as it does when it is empty or when no
  entry holds a parameter, \<^verbatim>\<open>buildTypeFromParameters\<close> returns the empty name and leaves
  the model as it was, and when it yields a field the holder type is appended to the model
  and its name returned; \<^verbatim>\<open>buildTypeFromResponses\<close> does the same with the fields of
  the response map.\<close>

theorem holder_types_discarded_if_empty:
  "(Type_Fields (parametersType E name parameters) = [] \<longrightarrow>
      buildTypeFromParameters E model name parameters = (('''', None), model))
   \<and> (Type_Fields (parametersType E name parameters) \<noteq> [] \<longrightarrow>
      buildTypeFromParameters E model name parameters =
        ((Type_Name (parametersType E name parameters), None),
         addType model (parametersType E name parameters)))
   \<and> ((Type_Fields (parametersType E name parameters) = [])
        = (\<forall>p\<in>set parameters. GetParameter p = None))
   \<and> (Type_Fields (responsesType E name responses) = [] \<longrightarrow>
      buildTypeFromResponses E model name (Some responses) = Inr (('''', None), model))
   \<and> (Type_Fields (responsesType E name responses) \<noteq> [] \<longrightarrow>
      buildTypeFromResponses E model name (Some responses) =
        Inr ((Type_Name (responsesType E name responses), None),
             addType model (responsesType E name responses)))
   \<and> ((Type_Fields (responsesType E name responses) = [])
        = (\<forall>rc\<in>set (ResponseCode responses). responseSchema rc = None))"
  by (simp add: buildTypeFromParameters_eq buildTypeFromResponses_eq parametersType_def
      responsesType_def map_filter_Nil_iff usableParameterField_def responseField_def
      split: option.splits)

theorem holder_types_discarded_if_empty_witness:
  "buildTypeFromParameters example_helpers Model_zero ''getPet''
       [ParametersItem_JsonReference ''#/parameters/limit'', ParametersItem_unset]
     = (('''', None), Model_zero)
   \<and> buildTypeFromParameters example_helpers Model_zero ''getPet'' [idParameter]
     = ((''getPetParameters'', None),
        Model_zero\<lparr>Model_Types := [parametersType example_helpers ''getPet'' [idParameter]]\<rparr>)
   \<and> buildTypeFromResponses example_helpers Model_zero ''getPet''
       (Some (Responses [NamedResponseValue ''204'' (Some (ResponseValue_Response (Response None)))]))
     = Inr (('''', None), Model_zero)
   \<and> buildTypeFromResponses example_helpers Model_zero ''getPet'' (Some petResponses)
     = Inr ((''getPetResponses'', None),
        Model_zero\<lparr>Model_Types := [responsesType example_helpers ''getPet'' petResponses]\<rparr>)"
proof -
  let ?none = "[ParametersItem_JsonReference ''#/parameters/limit'', ParametersItem_unset]"
  let ?empty = "Responses [NamedResponseValue ''204'' (Some (ResponseValue_Response (Response None)))]"
  have 1: "\<forall>p\<in>set ?none. GetParameter p = None"
    by simp
  have 2: "\<not> (\<forall>p\<in>set [idParameter]. GetParameter p = None)"
    by (simp add: idParameter_def)
  have 3: "\<forall>rc\<in>set (ResponseCode ?empty). responseSchema rc = None"
    by (simp add: responseSchema_def)
  have 4: "\<not> (\<forall>rc\<in>set (ResponseCode petResponses). responseSchema rc = None)"
    by (simp add: petResponses_def responseSchema_def)
  show ?thesis
    using 1 2 3 4
      holder_types_discarded_if_empty[of example_helpers "''getPet''" ?none Model_zero ?empty]
      holder_types_discarded_if_empty[of example_helpers "''getPet''" "[idParameter]" Model_zero
        petResponses]
    by (simp add: addType_def Model_zero_def parametersType_def responsesType_def)
qed



section \<open>Properties of the methods\<close>



text \<open>C8: a translation that returns has built, for each path item in order, one method for
  each of GET, POST, PUT and DELETE that the item exposes, and no other method; a document
  whose path items expose none of the four, be there a PATCH operation or not, has no
  method.\<close>

theorem methods_of_recognized_verbs:
  assumes "NewModelFromOpenAPI2 E document = Inr (result, err)"
  shows "\<exists>model paths. result = Some model \<and> err = None
     \<and> Document_Paths document = Some paths
     \<and> map verbAndPath (Model_Methods model) = concat (map recognizedVerbs (Path paths))
     \<and> ((\<forall>pair\<in>set (Path paths). noRecognizedVerb pair) \<longrightarrow> Model_Methods model = [])"
proof -
  from assms obtain info e m where i: "Document_Info document = Some info"
    and b: "build E document
        (Model_zero\<lparr>Model_Name := Title info, Model_Types := [], Model_Methods := []\<rparr>)
        = Inr (e, m)"
    by (auto simp: NewModelFromOpenAPI2_def buildModel_def Let_def
        split: option.splits sum.splits)
  from build_methods[OF b] obtain paths where e: "e = None"
    and p: "Document_Paths document = Some paths"
    and v: "map verbAndPath (Model_Methods m) = concat (map recognizedVerbs (Path paths))"
    by auto
  have r: "result = Some m" "err = None"
    using assms i b e by (auto simp: NewModelFromOpenAPI2_def buildModel_def Let_def)
  have "Model_Methods m = []" if "\<forall>pair\<in>set (Path paths). noRecognizedVerb pair"
  proof -
    from that have "concat (map recognizedVerbs (Path paths)) = []"
      by (simp add: recognizedVerbs_none)
    with v show ?thesis by simp
  qed
  with r p v show ?thesis by blast
qed

theorem methods_of_recognized_verbs_witness:
  "map verbAndPath (Model_Methods (the (fst (projr
       (NewModelFromOpenAPI2 example_helpers petsDocument)))))
     = [(''GET'', ''/pets/{id}''), (''DELETE'', ''/pets/{id}'')]
   \<and> noRecognizedVerb
        (NamedPathItem ''/pets'' (PathItem None None None None None None (Some anonymousOperation)))"
proof -
  have "documentBuilds petsDocument"
    by (simp add: documentBuilds_def petsDocument_def definitionBuilds_def pathItemBuilds_def
        operationBuilds_def declaredProperties_def petSchema_def getPet_def
        anonymousOperation_def)
  with NewModelFromOpenAPI2_returns[of example_helpers petsDocument] obtain model where
    r: "NewModelFromOpenAPI2 example_helpers petsDocument = Inr (Some model, None)"
    by auto
  from methods_of_recognized_verbs[OF r]
  have v: "map verbAndPath (Model_Methods model)
             = [(''GET'', ''/pets/{id}''), (''DELETE'', ''/pets/{id}'')]"
    by (simp add: petsDocument_def recognizedVerbs_def verbMethods_def Let_def)
  show ?thesis
    by (simp add: r v noRecognizedVerb_def)
qed

section \<open>Failures of the translation\<close>

text \<open>C9: the translation of a document that has its title and its paths section, and
  whose only definition is \<^verbatim>\<open>{additionalProperties: true}\<close>, does not return a model:
  it dereferences a nil pointer.\<close>

theorem NewModelFromOpenAPI2_boolean_map_panics:
  "Document_Info booleanMapDocument = Some (Info ''T'')
   \<and> Document_Paths booleanMapDocument = Some (Paths [])
   \<and> NewModelFromOpenAPI2 E booleanMapDocument = Inl NilPointerDereference"
proof -
  have "\<not> documentBuilds booleanMapDocument"
    by (simp add: documentBuilds_def booleanMapDocument_def definitionBuilds_def
        declaredProperties_def booleanMapSchema_def)
  then show ?thesis
    by (simp add: NewModelFromOpenAPI2_panics) (simp add: booleanMapDocument_def)
qed

end
